theory Spec2Isabelle
  imports Main "HOL-Library.Log_Nat"
begin

section \<open>Dash components\<close>

text \<open>
  A Dash component (\<^verbatim>\<open>html.Div\<close>, \<^verbatim>\<open>html.Td\<close>, \<^verbatim>\<open>daq.Indicator\<close>, ...) is a tagged
  node with children, keyword properties (\<^verbatim>\<open>className\<close>, \<^verbatim>\<open>id\<close>, \<^verbatim>\<open>href\<close>, ...) and a
  \<^verbatim>\<open>style\<close> dictionary. A string child is \<open>Text\<close>. A single child and a one-element
  list of children are both a one-element list; \<^verbatim>\<open>children=None\<close> is the empty list.
  Dictionaries keep insertion order, so \<^verbatim>\<open>style\<close> is an association list.
\<close>

datatype component =
    Text string
  | Component (tag: string) (children: "component list")
      (props: "(string \<times> string) list") (style: "(string \<times> string) list")

abbreviation html_Div :: "component list \<Rightarrow> (string \<times> string) list \<Rightarrow> (string \<times> string) list \<Rightarrow> component" where
  "html_Div \<equiv> Component ''Div''"
abbreviation html_Span :: "component list \<Rightarrow> (string \<times> string) list \<Rightarrow> (string \<times> string) list \<Rightarrow> component" where
  "html_Span \<equiv> Component ''Span''"
abbreviation html_Td :: "component list \<Rightarrow> (string \<times> string) list \<Rightarrow> (string \<times> string) list \<Rightarrow> component" where
  "html_Td \<equiv> Component ''Td''"
abbreviation html_Th :: "component list \<Rightarrow> (string \<times> string) list \<Rightarrow> (string \<times> string) list \<Rightarrow> component" where
  "html_Th \<equiv> Component ''Th''"
abbreviation html_Tr :: "component list \<Rightarrow> (string \<times> string) list \<Rightarrow> (string \<times> string) list \<Rightarrow> component" where
  "html_Tr \<equiv> Component ''Tr''"
abbreviation html_Table :: "component list \<Rightarrow> (string \<times> string) list \<Rightarrow> (string \<times> string) list \<Rightarrow> component" where
  "html_Table \<equiv> Component ''Table''"
abbreviation html_A :: "component list \<Rightarrow> (string \<times> string) list \<Rightarrow> (string \<times> string) list \<Rightarrow> component" where
  "html_A \<equiv> Component ''A''"
abbreviation html_H4 :: "component list \<Rightarrow> (string \<times> string) list \<Rightarrow> (string \<times> string) list \<Rightarrow> component" where
  "html_H4 \<equiv> Component ''H4''"
abbreviation html_H6 :: "component list \<Rightarrow> (string \<times> string) list \<Rightarrow> (string \<times> string) list \<Rightarrow> component" where
  "html_H6 \<equiv> Component ''H6''"
abbreviation html_Br :: "component list \<Rightarrow> (string \<times> string) list \<Rightarrow> (string \<times> string) list \<Rightarrow> component" where
  "html_Br \<equiv> Component ''Br''"
abbreviation daq_Indicator :: "component list \<Rightarrow> (string \<times> string) list \<Rightarrow> (string \<times> string) list \<Rightarrow> component" where
  "daq_Indicator \<equiv> Component ''Indicator''"

text \<open>
  The truth value of a component in \<^verbatim>\<open>if cell:\<close> is Dash's \<^verbatim>\<open>Component.__len__\<close>, the
  number of items in the tree below it: every child counts one, a component child also
  counts its own tree.
\<close>

fun component_len :: "component \<Rightarrow> nat" where
  "component_len (Text s) = 0"
| "component_len (Component t cs ps st) = sum_list (map (\<lambda>c. Suc (component_len c)) cs)"

definition truthy :: "component \<Rightarrow> bool" where
  "truthy cell = (0 < component_len cell)"

section \<open>components.py: previous states\<close>

text \<open>The dictionary of one fleet state, with the four keys \<^verbatim>\<open>state_detail\<close> reads.\<close>

record state_dict =
  symbol :: string
  color_hex :: string
  nickname :: string
  updated :: string

definition state_detail :: "state_dict \<Rightarrow> bool \<Rightarrow> component" where
  "state_detail state current_state =
     (let children0 =
            [html_Div [html_Div [Text (symbol state)] [(''className'', ''single-symbol'')] []]
               [(''className'', ''nucypher-nickname-icon'')] [(''border-color'', color_hex state)],
             html_Span [Text (nickname state)] [(''title'', updated state)] []];
          children1 =
            (if current_state then children0 @ [html_Span [Text ''(*Current)''] [] []]
             else children0)
      in html_Div children1
           [(''className'', if current_state then ''state state-current'' else ''state'')]
           [(''background-color'', color_hex state)])"

text \<open>\<^verbatim>\<open>_states_table\<close>: one cell per state, the loop index deciding the current state.\<close>

definition states_row :: "state_dict list \<Rightarrow> component list" where
  "states_row states =
     map (\<lambda>(idx, state_dict). html_Td [state_detail state_dict (idx = 0)] [] [])
       (enumerate 0 states)"

definition states_table :: "state_dict list \<Rightarrow> component" where
  "states_table states = html_Table [html_Tr (states_row states) [(''id'', ''state-table'')] []] [] []"

definition previous_states :: "state_dict list \<Rightarrow> component" where
  "previous_states states =
     html_Div [html_H4 [Text ''Previous States''] [] [],
               html_Div [states_table states] [] []]
       [(''className'', ''row'')] []"

text \<open>What a reader of the rendered state sees: the annotation and the class.\<close>

definition annotated_current :: "component \<Rightarrow> bool" where
  "annotated_current c = (html_Span [Text ''(*Current)''] [] [] \<in> set (children c))"

definition class_name :: "component \<Rightarrow> string option" where
  "class_name c = map_of (props c) ''className''"

section \<open>components.py: the node table\<close>

definition NODE_TABLE_COLUMNS :: "string list" where
  "NODE_TABLE_COLUMNS = [''Status'', ''Checksum'', ''Nickname'', ''Launched'', ''Last Seen'', ''Fleet State'']"

text \<open>
  The \<^verbatim>\<open>status\<close> dictionary of a node and the node record itself, with the keys
  \<^verbatim>\<open>generate_node_table_components\<close> reads (\<open>node_nickname\<close> is the key \<^verbatim>\<open>nickname\<close>,
  \<open>node_status\<close> the key \<^verbatim>\<open>status\<close>). The value under \<^verbatim>\<open>fleet_state_icon\<close> is either
  the constant \<^verbatim>\<open>UNKNOWN_FLEET_STATE\<close> or a list of icons.
\<close>

record status_dict =
  status :: string
  color :: string

datatype fleet_state_icon = UNKNOWN_FLEET_STATE | Icon "component list"

record node_info =
  node_nickname :: string
  rest_url :: string
  fleet_state_icon :: fleet_state_icon
  staker_address :: string
  last_seen :: string
  node_status :: status_dict
  timestamp :: string

definition generate_node_status_icon :: "status_dict \<Rightarrow> component" where
  "generate_node_status_icon st =
     (let status_message = status st; color = color st;
          status_cell = daq_Indicator []
            [(''id'', ''Status''), (''color'', color), (''value'', ''True''),
             (''label'', status_message), (''labelPosition'', ''right''), (''size'', ''25'')] []
      in html_Td [status_cell] [] [])"

text \<open>
  The exceptions the model follows. \<^verbatim>\<open>ParserError\<close> is not among them: it is the one
  exception the source catches, and it has an outcome of its own below.
\<close>

datatype error = KeyError | ValueError | OverflowError | ConnectionError | Timeout | JSONDecodeError

text \<open>
  \<^verbatim>\<open>MayaDT.from_rfc3339(s).slang_time()\<close> belongs to the maya library; it is the parameter
  \<open>slang_time\<close>, with three outcomes: \<open>Slang t\<close>, the slang time \<open>t\<close> of a string the
  parser accepts; \<open>ParserError\<close>, pendulum's exception of that name; and \<open>Raises e\<close>, any
  other exception \<open>e\<close> (the library raises \<^verbatim>\<open>ValueError\<close> and \<^verbatim>\<open>OverflowError\<close> on some
  strings). The \<^verbatim>\<open>try\<close> statement catches \<^verbatim>\<open>ParserError\<close> only, so \<open>Raises e\<close> leaves
  the function. The returned dictionary has the six column names as keys; it is an
  association list in the order of the dictionary literal.
\<close>

datatype slang_outcome = Slang string | ParserError | Raises error

definition generate_node_table_components ::
    "(string \<Rightarrow> slang_outcome) \<Rightarrow> node_info \<Rightarrow> error + (string \<times> component) list" where
  "generate_node_table_components slang_time node_info =
     (let identity = html_Td [html_Div
            [html_A [Text (node_nickname node_info)]
               [(''href'', ''https://'' @ rest_url node_info @ ''/status''), (''target'', ''_blank'')] []]
            [] []] [] [];
          fleet_state_div =
            (case fleet_state_icon node_info of
               UNKNOWN_FLEET_STATE \<Rightarrow> []
             | Icon icon_list \<Rightarrow> icon_list);
          fleet_state = html_Td [html_Div fleet_state_div [] []] [] [];
          staker_address = staker_address node_info;
          etherscan_url = ''https://goerli.etherscan.io/address/'' @ staker_address
      in case (case slang_time (last_seen node_info) of
                 Slang slang \<Rightarrow> Inr slang
               | ParserError \<Rightarrow> Inr (last_seen node_info)
               | Raises e \<Rightarrow> Inl e) of
           Inl e \<Rightarrow> Inl e
         | Inr slang_last_seen \<Rightarrow>
             (let status = generate_node_status_icon (node_status node_info)
              in Inr [(''Status'', status),
                      (''Checksum'', html_Td [html_A [Text (take 10 staker_address @ ''...'')]
                                   [(''href'', etherscan_url), (''target'', ''_blank'')] []] [] []),
                      (''Nickname'', identity),
                      (''Launched'', html_Td [Text (timestamp node_info)] [] []),
                      (''Last Seen'', html_Td [Text slang_last_seen] [] []),
                      (''Fleet State'', fleet_state)]))"

text \<open>
  The body of the loop of \<^verbatim>\<open>nodes_table\<close>: the cells of one node in column order, a cell
  being appended when it is truthy, and the style of the row. An exception of
  \<open>generate_node_table_components\<close> ends the rendering of the table, and so does the
  \<^verbatim>\<open>KeyError\<close> of \<^verbatim>\<open>components[col]\<close> for a missing key.
\<close>

fun row_cells :: "(string \<times> component) list \<Rightarrow> string list \<Rightarrow> error + component list" where
  "row_cells components [] = Inr []"
| "row_cells components (col # cols) =
     (case map_of components col of
        None \<Rightarrow> Inl KeyError
      | Some cell \<Rightarrow>
          (case row_cells components cols of
             Inl e \<Rightarrow> Inl e
           | Inr row \<Rightarrow> Inr (if truthy cell then cell # row else row)))"

definition node_row ::
    "(string \<Rightarrow> slang_outcome) \<Rightarrow> nat option \<Rightarrow> nat \<times> node_info \<Rightarrow> error + component" where
  "node_row slang_time teacher_index = (\<lambda>(index, node_info).
     (case generate_node_table_components slang_time node_info of
        Inl e \<Rightarrow> Inl e
      | Inr components \<Rightarrow>
          (case row_cells components NODE_TABLE_COLUMNS of
             Inl e \<Rightarrow> Inl e
           | Inr row \<Rightarrow>
               (let style_dict = [(''overflowY'', ''scroll'')];
                    style_dict =
                      (if Some index = teacher_index
                       then style_dict @ [(''backgroundColor'', ''#1E65F3''), (''color'', ''white'')]
                       else style_dict)
                in Inr (html_Tr row [(''className'', ''node-row'')] style_dict)))))"

fun node_rows ::
    "(string \<Rightarrow> slang_outcome) \<Rightarrow> nat option \<Rightarrow> (nat \<times> node_info) list \<Rightarrow> error + component list" where
  "node_rows slang_time teacher_index [] = Inr []"
| "node_rows slang_time teacher_index (n # ns) =
     (case node_row slang_time teacher_index n of
        Inl e \<Rightarrow> Inl e
      | Inr row \<Rightarrow>
          (case node_rows slang_time teacher_index ns of
             Inl e \<Rightarrow> Inl e
           | Inr rows \<Rightarrow> Inr (row # rows)))"

definition nodes_table ::
    "(string \<Rightarrow> slang_outcome) \<Rightarrow> node_info list \<Rightarrow> nat option \<Rightarrow> error + component" where
  "nodes_table slang_time nodes teacher_index =
     (case node_rows slang_time teacher_index (enumerate 0 nodes) of
        Inl e \<Rightarrow> Inl e
      | Inr rows \<Rightarrow>
          Inr (html_Table
                 (html_Tr (map (\<lambda>col. html_Th [Text col] [] []) NODE_TABLE_COLUMNS)
                    [(''className'', ''table-header'')] []
                  # rows)
                 [(''id'', ''node-table'')] []))"

text \<open>Python's \<^verbatim>\<open>str\<close> of a non-negative integer, as the f-string of the heading formats it.\<close>

function str_nat :: "nat \<Rightarrow> string" where
  "str_nat n = (if n < 10 then [''0123456789'' ! n] else str_nat (n div 10) @ [''0123456789'' ! (n mod 10)])"
  by pat_completeness auto
termination
  by (relation "measure id") auto

text \<open>
  \<^verbatim>\<open>known_nodes\<close>. The dictionary \<^verbatim>\<open>nodes_dict\<close> is the list of its items in insertion
  order (the order the loop visits them), its keys distinct. A value is \<open>Some\<close> node
  record when it is truthy and \<open>None\<close> when it is falsy (\<^verbatim>\<open>null\<close> or an empty dictionary).
  The loop carries the list \<^verbatim>\<open>nodes\<close> and \<^verbatim>\<open>teacher_index\<close>.
\<close>

fun known_nodes_loop ::
    "(string \<times> node_info option) list \<Rightarrow> string option \<Rightarrow> node_info list \<times> nat option
       \<Rightarrow> node_info list \<times> nat option" where
  "known_nodes_loop [] teacher_checksum (nodes, teacher_index) = (nodes, teacher_index)"
| "known_nodes_loop ((checksum, node_data) # items) teacher_checksum (nodes, teacher_index) =
     (case node_data of
        None \<Rightarrow> known_nodes_loop items teacher_checksum (nodes, teacher_index)
      | Some info \<Rightarrow>
          known_nodes_loop items teacher_checksum
            (nodes @ [info],
             if Some checksum = teacher_checksum then Some (length nodes) else teacher_index))"

definition known_nodes ::
    "(string \<Rightarrow> slang_outcome) \<Rightarrow> (string \<times> node_info option) list \<Rightarrow> string option
       \<Rightarrow> error + component" where
  "known_nodes slang_time nodes_dict teacher_checksum =
     (case known_nodes_loop nodes_dict teacher_checksum ([], None) of
        (nodes, teacher_index) \<Rightarrow>
          (case nodes_table slang_time nodes teacher_index of
             Inl e \<Rightarrow> Inl e
           | Inr table \<Rightarrow>
               Inr (html_Div
                      [html_H4 [Text ''Network Nodes''] [] [],
                       html_Div [html_Div [Text ''* Current Teacher'']
                                   [(''className'', ''two columns'')]
                                   [(''backgroundColor'', ''#1E65F3''), (''color'', ''white'')]] [] [],
                       html_Br [] [] [],
                       html_H6 [Text (''Known Nodes: '' @ str_nat (length nodes_dict))] [] [],
                       html_Div [table] [] []]
                      [] [])))"

text \<open>
  What a reader of the rendered page sees: the heading with the count, the rows of the
  node table below its header row, and whether a row carries the teacher highlight.
\<close>

fun heading :: "component \<Rightarrow> string" where
  "heading (Component t [h4, legend, br, Component t6 [Text s] ps6 st6, tbl] ps st) = s"
| "heading c = []"

fun rendered_rows :: "component \<Rightarrow> component list" where
  "rendered_rows (Component t [h4, legend, br, h6, Component td [Component tt (header # rows) pst stt] psd std] ps st) = rows"
| "rendered_rows c = []"

definition highlighted :: "component \<Rightarrow> bool" where
  "highlighted row = (map_of (style row) ''backgroundColor'' = Some ''#1E65F3'')"

text \<open>
  The records on which the parser returns or raises \<^verbatim>\<open>ParserError\<close>, and the cells the
  source produces for such a record, in the order of the dictionary.
\<close>

definition parser_handles :: "(string \<Rightarrow> slang_outcome) \<Rightarrow> node_info \<Rightarrow> bool" where
  "parser_handles slang_time node_info =
     (case slang_time (last_seen node_info) of
        Slang slang \<Rightarrow> True
      | ParserError \<Rightarrow> True
      | Raises e \<Rightarrow> False)"

definition node_cells :: "(string \<Rightarrow> slang_outcome) \<Rightarrow> node_info \<Rightarrow> component list" where
  "node_cells slang_time node_info =
     (case generate_node_table_components slang_time node_info of
        Inl e \<Rightarrow> []
      | Inr components \<Rightarrow> map snd components)"

section \<open>dashboard.py: the cached crawler stats\<close>

text \<open>
  The payload of the crawler, with the two keys the modelled consumers read. The JSON
  codec (\<^verbatim>\<open>json.loads\<close>, \<^verbatim>\<open>json.dumps\<close>, \<^verbatim>\<open>response.json()\<close>) and the HTTP request
  (\<^verbatim>\<open>requests.get\<close>) are library code and are parameters: \<open>json_loads\<close> is \<open>None\<close>
  where decoding raises, and \<open>crawler n\<close> is what the \<open>n\<close>-th request of the process
  meets, an exception of \<^verbatim>\<open>requests.get\<close> or the body of the response.
\<close>

record crawler_stats =
  prev_states :: "state_dict list"
  node_details :: "(string \<times> node_info option) list"

text \<open>
  The state the callbacks work on: the children of the hidden element
  \<^verbatim>\<open>cached-crawler-stats\<close> (\<open>None\<close> until the first update), the number of requests sent
  to the crawler so far, and the messages written through \<^verbatim>\<open>self.log\<close>.
\<close>

record dashboard =
  cached_crawler_stats :: "string option"
  requests_made :: nat
  logged :: "string list"

definition make_request ::
    "(string \<Rightarrow> 'p option) \<Rightarrow> (nat \<Rightarrow> error + string) \<Rightarrow> dashboard \<Rightarrow> (error + 'p) \<times> dashboard" where
  "make_request json_loads crawler d =
     (let response = crawler (requests_made d);
          d' = d\<lparr>requests_made := Suc (requests_made d)\<rparr>
      in case response of
           Inl e \<Rightarrow> (Inl e, d')
         | Inr body \<Rightarrow>
             (case json_loads body of
                None \<Rightarrow> (Inl JSONDecodeError, d')
              | Some payload \<Rightarrow> (Inr payload, d')))"

definition verify_cached_stats ::
    "(string \<Rightarrow> 'p option) \<Rightarrow> (nat \<Rightarrow> error + string) \<Rightarrow> string option \<Rightarrow> dashboard
       \<Rightarrow> (error + 'p) \<times> dashboard" where
  "verify_cached_stats json_loads crawler cached_stats d =
     (case cached_stats of
        None \<Rightarrow> make_request json_loads crawler d
      | Some text \<Rightarrow>
          (case json_loads text of
             None \<Rightarrow> (Inl JSONDecodeError, d)
           | Some data \<Rightarrow> (Inr data, d)))"

definition update_cached_stats ::
    "('p \<Rightarrow> string) \<Rightarrow> (string \<Rightarrow> 'p option) \<Rightarrow> (nat \<Rightarrow> error + string) \<Rightarrow> dashboard
       \<Rightarrow> (error + string) \<times> dashboard" where
  "update_cached_stats json_dumps json_loads crawler d =
     (case make_request json_loads crawler d of
        (Inl e, d') \<Rightarrow> (Inl e, d')
      | (Inr payload, d') \<Rightarrow> (Inr (json_dumps payload), d'))"

text \<open>The callback \<^verbatim>\<open>state\<close>, which gets the children of the store as \<^verbatim>\<open>latest_crawler_stats\<close>.\<close>

definition state ::
    "(string \<Rightarrow> crawler_stats option) \<Rightarrow> (nat \<Rightarrow> error + string) \<Rightarrow> string option \<Rightarrow> dashboard
       \<Rightarrow> (error + component) \<times> dashboard" where
  "state json_loads crawler latest_crawler_stats d =
     (case verify_cached_stats json_loads crawler latest_crawler_stats d of
        (Inl e, d') \<Rightarrow> (Inl e, d')
      | (Inr data, d') \<Rightarrow> (Inr (previous_states (prev_states data)), d'))"

section \<open>Python floats\<close>

text \<open>
  A Python float is an IEEE 754 binary64 number. \<open>Double m e\<close> is the number \<open>m * 2 ^ e\<close>,
  with \<open>2 ^ 52 \<le> \<bar>m\<bar> < 2 ^ 53\<close>, and zero is \<open>Double 0 0\<close>. \<open>round_to_double n e\<close> is the
  double nearest to the exact number \<open>n * 2 ^ e\<close>, a tie going to the even significand
  (round-half-even, the rounding of every operation below). The exponent is not bounded
  here: subnormal numbers and infinities are not represented, and the conversion from an
  integer, the one place where the source can leave the range, checks it.
\<close>

datatype double = Double (mantissa: int) (exponent: int)

definition round_to_double :: "int \<Rightarrow> int \<Rightarrow> double" where
  "round_to_double n e =
     (if n = 0 then Double 0 0
      else let k = bitlen \<bar>n\<bar> - 53 in
        if k \<le> 0 then Double (n * 2 ^ nat (- k)) (e + k)
        else let q = \<bar>n\<bar> div 2 ^ nat k; r = \<bar>n\<bar> mod 2 ^ nat k; half = 2 ^ nat (k - 1);
                 q' = (if r < half then q else if half < r then q + 1
                       else if even q then q else q + 1)
             in if q' = 2 ^ 53 then Double (sgn n * 2 ^ 52) (e + k + 1)
                else Double (sgn n * q') (e + k))"

text \<open>
  The float literal with the decimal digits \<open>n\<close> and \<open>d\<close> digits after the point, that is
  the double nearest to \<open>n / 10 ^ d\<close>: the quotient is taken with at least 55 bits and a
  sticky bit for the remainder, then rounded.
\<close>

definition double_of_decimal :: "int \<Rightarrow> nat \<Rightarrow> double" where
  "double_of_decimal n d =
     (let s = nat (55 + bitlen (10 ^ d) - bitlen \<bar>n\<bar>);
          q = (\<bar>n\<bar> * 2 ^ s) div 10 ^ d; r = (\<bar>n\<bar> * 2 ^ s) mod 10 ^ d
      in round_to_double (sgn n * (2 * q + (if r = 0 then 0 else 1))) (- int s - 1))"

definition double_add :: "double \<Rightarrow> double \<Rightarrow> double" where
  "double_add a b =
     (let e = min (exponent a) (exponent b)
      in round_to_double
           (mantissa a * 2 ^ nat (exponent a - e) + mantissa b * 2 ^ nat (exponent b - e)) e)"

definition double_sub :: "double \<Rightarrow> double \<Rightarrow> double" where
  "double_sub a b =
     (let e = min (exponent a) (exponent b)
      in round_to_double
           (mantissa a * 2 ^ nat (exponent a - e) - mantissa b * 2 ^ nat (exponent b - e)) e)"

definition double_mul :: "double \<Rightarrow> double \<Rightarrow> double" where
  "double_mul a b = round_to_double (mantissa a * mantissa b) (exponent a + exponent b)"

text \<open>
  The conversion of an integer in mixed arithmetic; Python raises \<^verbatim>\<open>OverflowError\<close> for
  an integer beyond the largest double, \<open>(2 ^ 53 - 1) * 2 ^ 971\<close>.
\<close>

definition float_of_int :: "int \<Rightarrow> error + double" where
  "float_of_int n =
     (let x = round_to_double n 0
      in if 971 < exponent x then Inl OverflowError else Inr x)"

text \<open>The exact number a double stands for.\<close>

definition double_value :: "double \<Rightarrow> rat" where
  "double_value x =
     (if 0 \<le> exponent x then of_int (mantissa x * 2 ^ nat (exponent x))
      else of_int (mantissa x) / of_int (2 ^ nat (- exponent x)))"

section \<open>dashboard.py: the informational endpoints\<close>

text \<open>
  The values the endpoints put into their JSON answer, a dictionary in insertion order.
  A number passed to \<^verbatim>\<open>NU.from_nunits\<close> is an integer or a float. The class \<^verbatim>\<open>NU\<close> belongs
  to the nucypher library: \<open>from_nunits\<close> is \<^verbatim>\<open>NU.from_nunits\<close> and \<open>str_round\<close> is
  \<^verbatim>\<open>str(round(_, 2))\<close> on its values; both are parameters.
\<close>

datatype pynum = PyInt int | PyFloat double

datatype jvalue = JStr string | JBool bool | JInt int | JObj "(string \<times> jvalue) list"

record economics =
  total_supply :: int
  initial_supply :: int

definition supply_information ::
    "(pynum \<Rightarrow> 'nu) \<Rightarrow> ('nu \<Rightarrow> string) \<Rightarrow> economics \<Rightarrow> error + (string \<times> jvalue) list" where
  "supply_information from_nunits str_round economics =
     (let total_supply = total_supply economics;
          initial_supply = initial_supply economics
      in case float_of_int initial_supply of
           Inl e \<Rightarrow> Inl e
         | Inr float_initial_supply \<Rightarrow>
             (let investor_supply =
                    double_mul (double_add (double_of_decimal 319 3) (double_of_decimal 8 2))
                      float_initial_supply;
                  team_supply = double_mul (double_of_decimal 106 3) float_initial_supply;
                  nuco_supply = double_mul (double_of_decimal 2 1) float_initial_supply;
                  initial_allocation =
                    [(''investors'', JStr (str_round (from_nunits (PyFloat investor_supply)))),
                     (''team'', JStr (str_round (from_nunits (PyFloat team_supply)))),
                     (''company'', JStr (str_round (from_nunits (PyFloat nuco_supply))))];
                  est_circulating_supply =
                    str_round (from_nunits (PyFloat
                      (double_sub (double_sub (double_sub float_initial_supply investor_supply)
                         team_supply) nuco_supply)))
              in Inr [(''total_supply'', JStr (str_round (from_nunits (PyInt total_supply)))),
                      (''initial_supply'', JStr (str_round (from_nunits (PyInt initial_supply)))),
                      (''staking_rewards_supply'',
                         JStr (str_round (from_nunits (PyInt (total_supply - initial_supply))))),
                      (''internal_allocations'', JObj initial_allocation),
                      (''est_circulating_supply'', JStr est_circulating_supply)]))"

text \<open>
  What the blockchain client answers about one staker. \<open>get_staker\<close> stands for the
  \<^verbatim>\<open>Staker\<close> object and the reads made through it; where one of them raises, it is \<open>Inl\<close>.
  \<^verbatim>\<open>Nickname.from_seed\<close> and \<^verbatim>\<open>prettify_eth_amount\<close> are library functions.
\<close>

record 'nu staker =
  owned_tokens :: 'nu
  locked_tokens :: "nat \<Rightarrow> 'nu"
  is_restaking :: bool
  is_winding_down :: bool
  is_taking_snapshots :: bool
  last_committed_period :: int
  worker_address :: string
  calculate_policy_fee :: int
  min_fee_rate :: int

definition staker_information ::
    "(string \<Rightarrow> error + 'nu staker) \<Rightarrow> int \<Rightarrow> ('nu \<Rightarrow> string) \<Rightarrow> (string \<Rightarrow> string) \<Rightarrow> (int \<Rightarrow> string)
       \<Rightarrow> string \<Rightarrow> error + (string \<times> jvalue) list" where
  "staker_information get_staker get_current_period str_round nickname_from_seed prettify_eth_amount
       staker_addr =
     (case get_staker staker_addr of
        Inl e \<Rightarrow> Inl e
      | Inr staker \<Rightarrow>
          (let missing_commitments = get_current_period - last_committed_period staker
           in Inr [(''staker_address'', JStr staker_addr),
                   (''nickname'', JStr (nickname_from_seed staker_addr)),
                   (''owned_tokens'', JStr (str_round (owned_tokens staker))),
                   (''staked_current_period'', JStr (str_round (locked_tokens staker 0))),
                   (''staked_next_period'', JStr (str_round (locked_tokens staker 1))),
                   (''restake'', JBool (is_restaking staker)),
                   (''winddown'', JBool (is_winding_down staker)),
                   (''snapshots'', JBool (is_taking_snapshots staker)),
                   (''missed_commitments'', JInt missing_commitments),
                   (''worker_address'', JStr (worker_address staker)),
                   (''unclaimed_fees'', JStr (prettify_eth_amount (calculate_policy_fee staker))),
                   (''min_fee_rate'', JStr (prettify_eth_amount (min_fee_rate staker)))]))"

section \<open>dashboard.py: routes and callbacks\<close>

text \<open>
  The collaborators of a \<^verbatim>\<open>Dashboard\<close>, and the requests its server answers: the two
  Flask routes and, of the Dash callbacks, the refresh of the store and the consumer
  \<^verbatim>\<open>state\<close>. A callback gets the children of \<^verbatim>\<open>cached-crawler-stats\<close> as its \<^verbatim>\<open>State\<close>
  argument, and what the callback \<^verbatim>\<open>update_cached_stats\<close> returns becomes the children
  of that element, its declared \<^verbatim>\<open>Output\<close>; a callback that raises has no output.
\<close>

record 'nu collaborators =
  json_loads :: "string \<Rightarrow> crawler_stats option"
  json_dumps :: "crawler_stats \<Rightarrow> string"
  crawler :: "nat \<Rightarrow> error + string"
  economics :: economics
  from_nunits :: "pynum \<Rightarrow> 'nu"
  str_round :: "'nu \<Rightarrow> string"
  get_staker :: "string \<Rightarrow> error + 'nu staker"
  get_current_period :: int
  nickname_from_seed :: "string \<Rightarrow> string"
  prettify_eth_amount :: "int \<Rightarrow> string"

datatype request = Update_cached_stats | State_callback | Supply_information | Staker_information string

datatype response = Children component | Stored string | Jsonified "(string \<times> jvalue) list"

definition handle ::
    "'nu collaborators \<Rightarrow> request \<Rightarrow> dashboard \<Rightarrow> (error + response) \<times> dashboard" where
  "handle env r d =
     (case r of
        Update_cached_stats \<Rightarrow>
          (case update_cached_stats (json_dumps env) (json_loads env) (crawler env) d of
             (Inl e, d') \<Rightarrow> (Inl e, d')
           | (Inr text, d') \<Rightarrow> (Inr (Stored text), d'\<lparr>cached_crawler_stats := Some text\<rparr>))
      | State_callback \<Rightarrow>
          (case state (json_loads env) (crawler env) (cached_crawler_stats d) d of
             (Inl e, d') \<Rightarrow> (Inl e, d')
           | (Inr c, d') \<Rightarrow> (Inr (Children c), d'))
      | Supply_information \<Rightarrow>
          (case supply_information (from_nunits env) (str_round env) (economics env) of
             Inl e \<Rightarrow> (Inl e, d)
           | Inr info \<Rightarrow> (Inr (Jsonified info), d))
      | Staker_information staker_addr \<Rightarrow>
          (case staker_information (get_staker env) (get_current_period env) (str_round env)
                  (nickname_from_seed env) (prettify_eth_amount env) staker_addr of
             Inl e \<Rightarrow> (Inl e, d)
           | Inr info \<Rightarrow> (Inr (Jsonified info), d)))"

fun serve ::
    "'nu collaborators \<Rightarrow> request list \<Rightarrow> dashboard \<Rightarrow> (error + response) list \<times> dashboard" where
  "serve env [] d = ([], d)"
| "serve env (r # rs) d =
     (case handle env r d of
        (x, d') \<Rightarrow> (case serve env rs d' of (xs, d'') \<Rightarrow> (x # xs, d'')))"

section \<open>Example inputs\<close>

definition node_A :: node_info where
  "node_A = \<lparr>node_nickname = ''Alice'', rest_url = ''10.0.0.1:9151'',
     fleet_state_icon = UNKNOWN_FLEET_STATE, staker_address = ''0xAAAAAAAAAAAAAAAAAAAA'',
     last_seen = ''No Connection to Node'', node_status = \<lparr>status = ''OK'', color = ''green''\<rparr>,
     timestamp = ''2020-01-01T00:00:00Z''\<rparr>"

definition node_B :: node_info where
  "node_B = \<lparr>node_nickname = ''Bob'', rest_url = ''10.0.0.2:9151'',
     fleet_state_icon = Icon [Text ''B''], staker_address = ''0xBBBBBBBBBBBBBBBBBBBB'',
     last_seen = ''2020-03-01T12:00:00Z'', node_status = \<lparr>status = ''OK'', color = ''green''\<rparr>,
     timestamp = ''2020-01-02T00:00:00Z''\<rparr>"

definition node_C :: node_info where
  "node_C = \<lparr>node_nickname = ''Carol'', rest_url = ''10.0.0.3:9151'',
     fleet_state_icon = UNKNOWN_FLEET_STATE, staker_address = ''0xCCCCCCCCCCCCCCCCCCCC'',
     last_seen = ''2020-03-01T11:00:00Z'',
     node_status = \<lparr>status = ''Unconfirmed'', color = ''red''\<rparr>,
     timestamp = ''2020-01-03T00:00:00Z''\<rparr>"


text \<open>
  A parser for the examples, with the outcome the library has at each of these strings:
  a slang time for the two timestamps, \<^verbatim>\<open>ValueError\<close> for \<^verbatim>\<open>24:00\<close>, \<^verbatim>\<open>OverflowError\<close>
  for a number of twenty digits, \<^verbatim>\<open>ParserError\<close> for text that is no date.
\<close>

definition maya :: "string \<Rightarrow> slang_outcome" where
  "maya s =
     (if s = ''2020-03-01T12:00:00Z'' then Slang ''2 hours ago''
      else if s = ''2020-03-01T11:00:00Z'' then Slang ''3 hours ago''
      else if s = ''24:00'' then Raises ValueError
      else if s = ''99999999999999999999'' then Raises OverflowError
      else ParserError)"

definition state_1 :: state_dict where
  "state_1 = \<lparr>symbol = ''#'', color_hex = ''#1E65F3'', nickname = ''Blue Hash'',
     updated = ''2020-01-01T00:00:00Z''\<rparr>"

definition stats_A :: crawler_stats where
  "stats_A = \<lparr>prev_states = [state_1], node_details = [(''0xA'', Some node_A)]\<rparr>"

definition stats_B :: crawler_stats where
  "stats_B = \<lparr>prev_states = [], node_details = []\<rparr>"

definition staker_1 :: "pynum staker" where
  "staker_1 = \<lparr>owned_tokens = PyInt 15000, locked_tokens = (\<lambda>periods. PyInt 15000),
     is_restaking = True, is_winding_down = False, is_taking_snapshots = True,
     last_committed_period = 18000, worker_address = ''0xW'',
     calculate_policy_fee = 0, min_fee_rate = 50\<rparr>"

text \<open>
  A crawler that answers the first request with the document \<open>stats_A\<close> and every later
  one with \<open>stats_B\<close>, and a crawler that is down.
\<close>

definition env_up :: "pynum collaborators" where
  "env_up = \<lparr>json_loads = (\<lambda>text. if text = ''A'' then Some stats_A
                                  else if text = ''B'' then Some stats_B else None),
     json_dumps = (\<lambda>payload. if payload = stats_A then ''A'' else ''B''),
     crawler = (\<lambda>n. if n = 0 then Inr ''A'' else Inr ''B''),
     economics = \<lparr>total_supply = 1000000 * 10 ^ 18, initial_supply = 400000 * 10 ^ 18\<rparr>,
     from_nunits = (\<lambda>x. x),
     str_round = (\<lambda>x. ''NU''),
     get_staker = (\<lambda>address. if address = ''0xS'' then Inr staker_1 else Inl KeyError),
     get_current_period = 18001,
     nickname_from_seed = (\<lambda>seed. ''Nick''),
     prettify_eth_amount = (\<lambda>amount. ''wei'')\<rparr>"

definition env_down :: "pynum collaborators" where
  "env_down = env_up\<lparr>crawler := (\<lambda>n. Inl ConnectionError)\<rparr>"

definition cold :: dashboard where
  "cold = \<lparr>cached_crawler_stats = None, requests_made = 0, logged = []\<rparr>"

definition warm :: dashboard where
  "warm = \<lparr>cached_crawler_stats = Some ''A'', requests_made = 1, logged = []\<rparr>"

section \<open>Properties of the rendered components\<close>

lemma states_row_from:
  "map (\<lambda>(idx, state_dict). html_Td [state_detail state_dict (idx = 0)] [] []) (enumerate (Suc n) xs)
     = map (\<lambda>s. html_Td [state_detail s False] [] []) xs"
  by (induction xs arbitrary: n) simp_all

lemma state_detail_current:
  "annotated_current (state_detail s True) \<and> class_name (state_detail s True) = Some ''state state-current''"
  by (simp add: state_detail_def annotated_current_def class_name_def)

lemma state_detail_previous:
  "\<not> annotated_current (state_detail s False) \<and> class_name (state_detail s False) = Some ''state''"
  by (simp add: state_detail_def annotated_current_def class_name_def)


text \<open>
  C9. For a non-empty list of states, \<open>previous_states\<close> renders one cell per state in
  list order; the first state is rendered as the current one (with the \<^verbatim>\<open>(*Current)\<close>
  annotation and the class \<^verbatim>\<open>state state-current\<close>), every later state is rendered
  without the annotation and with the class \<^verbatim>\<open>state\<close>.
\<close>

theorem previous_states_marks_first:
  "previous_states (s # rest) =
     html_Div [html_H4 [Text ''Previous States''] [] [],
               html_Div [html_Table
                 [html_Tr (html_Td [state_detail s True] [] []
                            # map (\<lambda>r. html_Td [state_detail r False] [] []) rest)
                    [(''id'', ''state-table'')] []] [] []] [] []]
       [(''className'', ''row'')] []
   \<and> annotated_current (state_detail s True)
   \<and> class_name (state_detail s True) = Some ''state state-current''
   \<and> \<not> annotated_current (state_detail r False)
   \<and> class_name (state_detail r False) = Some ''state''"
proof -
  have "states_row (s # rest) =
          html_Td [state_detail s True] [] [] # map (\<lambda>r. html_Td [state_detail r False] [] []) rest"
    by (simp add: states_row_def states_row_from)
  then show ?thesis
    using state_detail_current [of s] state_detail_previous [of r]
    by (simp add: previous_states_def states_table_def)
qed

subsection \<open>The node table\<close>

lemma generate_components_handled:
  "parser_handles slang_time info \<Longrightarrow>
   generate_node_table_components slang_time info
     = Inr (zip NODE_TABLE_COLUMNS (node_cells slang_time info))"
  by (cases "slang_time (last_seen info)")
     (simp_all add: parser_handles_def node_cells_def generate_node_table_components_def
        NODE_TABLE_COLUMNS_def Let_def)

lemma generate_components_raises:
  "slang_time (last_seen info) = Raises e \<Longrightarrow>
   generate_node_table_components slang_time info = Inl e"
  by (simp add: generate_node_table_components_def Let_def)

lemma truthy_cells:
  "parser_handles slang_time info \<Longrightarrow>
   row_cells (zip NODE_TABLE_COLUMNS (node_cells slang_time info)) NODE_TABLE_COLUMNS
     = Inr (node_cells slang_time info)"
  by (cases "slang_time (last_seen info)")
     (simp_all add: parser_handles_def node_cells_def generate_node_table_components_def
        NODE_TABLE_COLUMNS_def generate_node_status_icon_def truthy_def Let_def)

lemma node_row_eq:
  "parser_handles slang_time info \<Longrightarrow>
   node_row slang_time teacher_index (index, info) =
     Inr (html_Tr (node_cells slang_time info)
            [(''className'', ''node-row'')]
            (if Some index = teacher_index
             then [(''overflowY'', ''scroll''), (''backgroundColor'', ''#1E65F3''), (''color'', ''white'')]
             else [(''overflowY'', ''scroll'')]))"
  by (simp add: node_row_def generate_components_handled truthy_cells)

lemma node_rows_eq:
  "list_all (parser_handles slang_time) (map snd ns) \<Longrightarrow>
   node_rows slang_time teacher_index ns =
     Inr (map (\<lambda>(index, info).
            html_Tr (node_cells slang_time info)
              [(''className'', ''node-row'')]
              (if Some index = teacher_index
               then [(''overflowY'', ''scroll''), (''backgroundColor'', ''#1E65F3''), (''color'', ''white'')]
               else [(''overflowY'', ''scroll'')])) ns)"
proof (induction ns)
  case Nil
  show ?case by simp
next
  case (Cons n ns)
  obtain index info where n: "n = (index, info)" by (cases n)
  show ?case using Cons by (simp add: n node_row_eq)
qed

lemma known_nodes_loop_nodes:
  "fst (known_nodes_loop items teacher (nodes, ti)) = nodes @ List.map_filter snd items"
proof (induction items arbitrary: nodes ti)
  case Nil
  show ?case by (simp add: List.map_filter_simps)
next
  case (Cons item items)
  obtain checksum node_data where item: "item = (checksum, node_data)" by (cases item)
  show ?case using Cons by (cases node_data) (simp_all add: item List.map_filter_simps)
qed

lemma known_nodes_loop_no_teacher:
  "\<forall>info. (t, Some info) \<notin> set items \<Longrightarrow>
   snd (known_nodes_loop items (Some t) (nodes, ti)) = ti"
proof (induction items arbitrary: nodes ti)
  case Nil
  show ?case by simp
next
  case (Cons item items)
  obtain checksum node_data where item: "item = (checksum, node_data)" by (cases item)
  show ?case using Cons by (cases node_data) (auto simp: item)
qed

lemma known_nodes_eq:
  "list_all (parser_handles slang_time) (List.map_filter snd nodes_dict) \<Longrightarrow>
   known_nodes slang_time nodes_dict teacher =
     Inr (html_Div
            [html_H4 [Text ''Network Nodes''] [] [],
             html_Div [html_Div [Text ''* Current Teacher'']
                         [(''className'', ''two columns'')]
                         [(''backgroundColor'', ''#1E65F3''), (''color'', ''white'')]] [] [],
             html_Br [] [] [],
             html_H6 [Text (''Known Nodes: '' @ str_nat (length nodes_dict))] [] [],
             html_Div [html_Table
                 (html_Tr (map (\<lambda>col. html_Th [Text col] [] []) NODE_TABLE_COLUMNS)
                    [(''className'', ''table-header'')] []
                  # map (\<lambda>(index, info).
                      html_Tr (node_cells slang_time info)
                        [(''className'', ''node-row'')]
                        (if Some index = snd (known_nodes_loop nodes_dict teacher ([], None))
                         then [(''overflowY'', ''scroll''), (''backgroundColor'', ''#1E65F3''), (''color'', ''white'')]
                         else [(''overflowY'', ''scroll'')]))
                      (enumerate 0 (List.map_filter snd nodes_dict)))
                 [(''id'', ''node-table'')] []] [] []]
            [] [])"
proof -
  assume handled: "list_all (parser_handles slang_time) (List.map_filter snd nodes_dict)"
  obtain nodes ti where l: "known_nodes_loop nodes_dict teacher ([], None) = (nodes, ti)"
    by (cases "known_nodes_loop nodes_dict teacher ([], None)")
  have nodes: "nodes = List.map_filter snd nodes_dict"
    using known_nodes_loop_nodes [of nodes_dict teacher "[]" None] by (simp add: l)
  have "node_rows slang_time ti (enumerate 0 nodes) =
     Inr (map (\<lambda>(index, info).
            html_Tr (node_cells slang_time info)
              [(''className'', ''node-row'')]
              (if Some index = ti
               then [(''overflowY'', ''scroll''), (''backgroundColor'', ''#1E65F3''), (''color'', ''white'')]
               else [(''overflowY'', ''scroll'')])) (enumerate 0 nodes))"
    using handled by (intro node_rows_eq) (simp add: nodes)
  then show ?thesis
    by (simp add: known_nodes_def l nodes_table_def nodes)
qed

text \<open>
  C3. For a \<^verbatim>\<open>nodes_dict\<close> holding the node records A, B, C in this insertion order under
  three distinct keys, records on whose \<^verbatim>\<open>last_seen\<close> the parser returns or raises
  \<^verbatim>\<open>ParserError\<close>, and \<^verbatim>\<open>teacher_checksum\<close> equal to the key of B, \<open>known_nodes\<close>
  renders a table whose rows hold the cells of A, B and C in this order, and exactly the
  row of B carries the teacher highlight.
\<close>

theorem known_nodes_highlights_teacher:
  assumes "distinct [a, b, c]"
    and "parser_handles slang_time A" and "parser_handles slang_time B"
    and "parser_handles slang_time C"
  shows "case known_nodes slang_time [(a, Some A), (b, Some B), (c, Some C)] (Some b) of
           Inl e \<Rightarrow> False
         | Inr page \<Rightarrow>
             map children (rendered_rows page) = map (node_cells slang_time) [A, B, C]
           \<and> map (\<lambda>info. Inr (zip NODE_TABLE_COLUMNS (node_cells slang_time info))) [A, B, C]
               = map (generate_node_table_components slang_time) [A, B, C]
           \<and> map highlighted (rendered_rows page) = [False, True, False]"
proof -
  have "list_all (parser_handles slang_time)
          (List.map_filter snd [(a, Some A), (b, Some B), (c, Some C)])"
    using assms by (simp add: List.map_filter_simps)
  from known_nodes_eq [OF this] show ?thesis
    using assms by (auto simp: List.map_filter_simps highlighted_def generate_components_handled)
qed

theorem known_nodes_highlights_teacher_witness:
  "distinct [''0xA'', ''0xB'', ''0xC'']
   \<and> parser_handles maya node_A \<and> parser_handles maya node_B \<and> parser_handles maya node_C
   \<and> (case known_nodes maya [(''0xA'', Some node_A), (''0xB'', Some node_B), (''0xC'', Some node_C)]
              (Some ''0xB'') of
         Inl e \<Rightarrow> False
       | Inr page \<Rightarrow>
           map children (rendered_rows page) = map (node_cells maya) [node_A, node_B, node_C]
         \<and> map highlighted (rendered_rows page) = [False, True, False])"
proof -
  have d: "distinct [''0xA'', ''0xB'', ''0xC'']" by simp
  have hA: "parser_handles maya node_A" by (simp add: parser_handles_def maya_def node_A_def)
  have hB: "parser_handles maya node_B" by (simp add: parser_handles_def maya_def node_B_def)
  have hC: "parser_handles maya node_C" by (simp add: parser_handles_def maya_def node_C_def)
  show ?thesis
    using d hA hB hC known_nodes_highlights_teacher [OF d hA hB hC]
    by (simp split: sum.splits)
qed

lemma rows_not_highlighted:
  "filter highlighted (map (\<lambda>(index, info).
            html_Tr (cells info) [(''className'', ''node-row'')]
              (if Some index = None
               then [(''overflowY'', ''scroll''), (''backgroundColor'', ''#1E65F3''), (''color'', ''white'')]
               else [(''overflowY'', ''scroll'')])) ns) = []"
  by (induction ns) (auto simp: highlighted_def)

lemma map_enumerate_indep:
  "(\<And>i x. f (i, x) = g x) \<Longrightarrow> map f (enumerate n xs) = map g xs"
  by (induction xs arbitrary: n) simp_all

text \<open>
  C10. For every \<^verbatim>\<open>nodes_dict\<close> on whose truthy records the parser returns or raises
  \<^verbatim>\<open>ParserError\<close>, \<open>known_nodes\<close> renders one row per key whose value is truthy, in
  insertion order, and skips the keys whose value is falsy; the heading shows the number
  of all keys, the skipped ones included, so the count shown can exceed the number of
  rows; and when the entry of the teacher is falsy, no row is highlighted.
\<close>

theorem known_nodes_rows_and_count:
  assumes "list_all (parser_handles slang_time) (List.map_filter snd nodes_dict)"
  shows "case known_nodes slang_time nodes_dict teacher_checksum of
     Inl e \<Rightarrow> False
   | Inr page \<Rightarrow>
       map children (rendered_rows page) =
         map (node_cells slang_time) (List.map_filter snd nodes_dict)
     \<and> length (rendered_rows page) = length (filter (\<lambda>(checksum, node_data). node_data \<noteq> None) nodes_dict)
     \<and> heading page = ''Known Nodes: '' @ str_nat (length nodes_dict)
     \<and> (distinct (map fst nodes_dict) \<and> teacher_checksum = Some t \<and> map_of nodes_dict t = Some None
          \<longrightarrow> filter highlighted (rendered_rows page) = [])"
proof -
  note eq0 = known_nodes_eq [OF assms]
  define page where "page = projr (known_nodes slang_time nodes_dict teacher_checksum)"
  have eq: "known_nodes slang_time nodes_dict teacher_checksum = Inr page"
    by (simp add: page_def eq0)
  have rows: "map children (rendered_rows page) =
         map (node_cells slang_time) (List.map_filter snd nodes_dict)"
    unfolding page_def by (simp add: eq0) (rule map_enumerate_indep, simp)
  have len: "length (rendered_rows page)
      = length (filter (\<lambda>(checksum, node_data). node_data \<noteq> None) nodes_dict)"
    unfolding page_def by (simp add: eq0 List.map_filter_def case_prod_unfold)
  have hd: "heading page = ''Known Nodes: '' @ str_nat (length nodes_dict)"
    unfolding page_def by (simp add: eq0)
  have hl: "filter highlighted (rendered_rows page) = []"
    if "distinct (map fst nodes_dict) \<and> teacher_checksum = Some t \<and> map_of nodes_dict t = Some None"
  proof -
    have "\<forall>info. (t, Some info) \<notin> set nodes_dict"
    proof (intro allI notI)
      fix info assume mem: "(t, Some info) \<in> set nodes_dict"
      from that have "distinct (map fst nodes_dict)" by simp
      then have "map_of nodes_dict t = Some (Some info)" using mem by (rule map_of_is_SomeI)
      with that show False by simp
    qed
    then have "snd (known_nodes_loop nodes_dict (Some t) ([], None)) = None"
      by (rule known_nodes_loop_no_teacher)
    then show ?thesis
      unfolding page_def using rows_not_highlighted that
      by (simp add: known_nodes_eq [OF assms])
  qed
  show ?thesis
    unfolding eq sum.case using rows len hd hl by blast
qed

theorem known_nodes_rows_and_count_witness:
  "list_all (parser_handles maya) (List.map_filter snd [(''0xA'', Some node_A), (''0xB'', None)])
   \<and> (distinct (map fst [(''0xA'', Some node_A), (''0xB'', None)])
      \<and> Some ''0xB'' = Some ''0xB''
      \<and> map_of [(''0xA'', Some node_A), (''0xB'', None)] ''0xB'' = Some None)
   \<and> (case known_nodes maya [(''0xA'', Some node_A), (''0xB'', None)] (Some ''0xB'') of
        Inl e \<Rightarrow> False
      | Inr page \<Rightarrow>
          map children (rendered_rows page) = [node_cells maya node_A]
        \<and> length (rendered_rows page) = 1
        \<and> heading page = ''Known Nodes: 2''
        \<and> filter highlighted (rendered_rows page) = [])"
proof -
  have p: "list_all (parser_handles maya)
             (List.map_filter snd [(''0xA'', Some node_A), (''0xB'', None)])"
    by (simp add: List.map_filter_simps parser_handles_def maya_def node_A_def)
  have h: "distinct (map fst [(''0xA'', Some node_A), (''0xB'', None)])
      \<and> Some ''0xB'' = Some ''0xB''
      \<and> map_of [(''0xA'', Some node_A), (''0xB'', None)] ''0xB'' = Some None"
    by simp
  have s: "str_nat 2 = ''2''" by (simp add: str_nat.simps [of 2])
  show ?thesis
    using p h known_nodes_rows_and_count
      [OF p, where teacher_checksum = "Some ''0xB''" and t = "''0xB''"]
    by (auto split: sum.splits simp: s List.map_filter_simps)
qed




section \<open>Properties of the cached crawler stats\<close>

lemma make_request_frame:
  "cached_crawler_stats (snd (make_request loads crawl d)) = cached_crawler_stats d
   \<and> logged (snd (make_request loads crawl d)) = logged d
   \<and> requests_made (snd (make_request loads crawl d)) = Suc (requests_made d)"
  by (simp add: make_request_def Let_def split: sum.splits option.splits)

lemma make_request_snd:
  "snd (make_request loads crawl d) = d\<lparr>requests_made := Suc (requests_made d)\<rparr>"
  by (simp add: make_request_def Let_def split: sum.splits option.splits)

lemma make_request_success:
  "crawl (requests_made d) = Inr body \<Longrightarrow> loads body = Some payload \<Longrightarrow>
   make_request loads crawl d = (Inr payload, d\<lparr>requests_made := Suc (requests_made d)\<rparr>)"
  by (simp add: make_request_def Let_def)

text \<open>
  C1, as the code has it. On a cold start (the store is \<open>None\<close>) and with a crawler
  that answers with a document, \<open>verify_cached_stats\<close> sends one request and returns the
  fetched payload to its caller; it does not store it: the children of
  \<^verbatim>\<open>cached-crawler-stats\<close> are what they were.
\<close>

theorem cold_read_fetches_without_storing:
  assumes "crawl (requests_made d) = Inr body" and "loads body = Some payload"
  shows "fst (verify_cached_stats loads crawl None d) = Inr payload
       \<and> requests_made (snd (verify_cached_stats loads crawl None d)) = Suc (requests_made d)
       \<and> cached_crawler_stats (snd (verify_cached_stats loads crawl None d)) = cached_crawler_stats d"
  using assms by (simp add: verify_cached_stats_def make_request_success)

theorem cold_read_fetches_without_storing_witness:
  "crawler env_up (requests_made cold) = Inr ''A'' \<and> json_loads env_up ''A'' = Some stats_A
   \<and> fst (verify_cached_stats (json_loads env_up) (crawler env_up) None cold) = Inr stats_A
   \<and> requests_made (snd (verify_cached_stats (json_loads env_up) (crawler env_up) None cold)) = 1
   \<and> cached_crawler_stats (snd (verify_cached_stats (json_loads env_up) (crawler env_up) None cold)) = None"
proof -
  have h1: "crawler env_up (requests_made cold) = Inr ''A''" by (simp add: env_up_def cold_def)
  have h2: "json_loads env_up ''A'' = Some stats_A" by (simp add: env_up_def)
  show ?thesis
    using h1 h2 cold_read_fetches_without_storing
      [where crawl = "crawler env_up" and loads = "json_loads env_up" and d = cold
         and body = "''A''" and payload = stats_A]
    by (simp add: cold_def)
qed

text \<open>
  C1 as stated fails: after the first consumer has been served on a cold start, the store
  is still absent, and the next consumer meets the absent store and fetches again (here
  it gets the second document of the crawler).
\<close>

theorem cold_read_leaves_store_absent:
  "fst (handle env_up State_callback cold) = Inr (Children (previous_states [state_1]))
   \<and> cached_crawler_stats (snd (handle env_up State_callback cold)) = None
   \<and> fst (handle env_up State_callback (snd (handle env_up State_callback cold)))
        = Inr (Children (previous_states []))
   \<and> requests_made (snd (handle env_up State_callback (snd (handle env_up State_callback cold)))) = 2"
  by (simp add: handle_def state_def verify_cached_stats_def make_request_def env_up_def cold_def
        stats_A_def stats_B_def Let_def)


lemma make_request_failure:
  "fst (make_request loads crawl d) = Inl e \<Longrightarrow>
   make_request loads crawl d = (Inl e, d\<lparr>requests_made := Suc (requests_made d)\<rparr>)"
  by (simp add: make_request_def Let_def split: sum.splits option.splits)

text \<open>
  C2, as the code has it. When the fetch of a refresh fails, the error is raised out of
  the callback \<open>update_cached_stats\<close>, which therefore has no output: the stored snapshot
  and the log are unchanged, and a later read of a store that holds the serialised
  snapshot \<open>payload\<close> returns \<open>payload\<close>.
\<close>

theorem failed_refresh_raises_and_keeps_store:
  assumes "fst (make_request (json_loads env) (crawler env) d) = Inl e"
  shows "fst (handle env Update_cached_stats d) = Inl e
       \<and> cached_crawler_stats (snd (handle env Update_cached_stats d)) = cached_crawler_stats d
       \<and> logged (snd (handle env Update_cached_stats d)) = logged d
       \<and> (cached_crawler_stats d = Some (json_dumps env payload)
            \<and> json_loads env (json_dumps env payload) = Some payload \<longrightarrow>
          fst (verify_cached_stats (json_loads env) (crawler env)
                 (cached_crawler_stats (snd (handle env Update_cached_stats d)))
                 (snd (handle env Update_cached_stats d))) = Inr payload)"
  using make_request_failure [OF assms]
  by (simp add: handle_def update_cached_stats_def verify_cached_stats_def)

theorem failed_refresh_raises_and_keeps_store_witness:
  "fst (make_request (json_loads env_down) (crawler env_down) warm) = Inl ConnectionError
   \<and> (cached_crawler_stats warm = Some (json_dumps env_down stats_A)
        \<and> json_loads env_down (json_dumps env_down stats_A) = Some stats_A)
   \<and> fst (handle env_down Update_cached_stats warm) = Inl ConnectionError
   \<and> cached_crawler_stats (snd (handle env_down Update_cached_stats warm)) = cached_crawler_stats warm
   \<and> logged (snd (handle env_down Update_cached_stats warm)) = logged warm
   \<and> fst (verify_cached_stats (json_loads env_down) (crawler env_down)
            (cached_crawler_stats (snd (handle env_down Update_cached_stats warm)))
            (snd (handle env_down Update_cached_stats warm))) = Inr stats_A"
proof -
  have h: "fst (make_request (json_loads env_down) (crawler env_down) warm) = Inl ConnectionError"
    by (simp add: make_request_def env_down_def env_up_def warm_def)
  have h2: "cached_crawler_stats warm = Some (json_dumps env_down stats_A)
        \<and> json_loads env_down (json_dumps env_down stats_A) = Some stats_A"
    by (simp add: env_down_def env_up_def warm_def)
  show ?thesis
    using h h2 failed_refresh_raises_and_keeps_store [OF h, of stats_A]
    by blast
qed

text \<open>
  C2 as stated fails: with the crawler down, \<open>update_cached_stats\<close> raises the
  connection error and writes nothing to the log.
\<close>

theorem failed_refresh_raises_unlogged:
  "fst (update_cached_stats (json_dumps env_down) (json_loads env_down) (crawler env_down) warm)
     = Inl ConnectionError
   \<and> logged (snd (update_cached_stats (json_dumps env_down) (json_loads env_down) (crawler env_down) warm))
     = logged warm"
  by (simp add: update_cached_stats_def make_request_def env_down_def env_up_def warm_def)

lemma handle_state_warm:
  "cached_crawler_stats d = Some text \<Longrightarrow>
   handle env State_callback d =
     (case json_loads env text of
        None \<Rightarrow> Inl JSONDecodeError
      | Some data \<Rightarrow> Inr (Children (previous_states (prev_states data))), d)"
  by (simp add: handle_def state_def verify_cached_stats_def split: option.splits)

lemma handle_state_cold:
  "cached_crawler_stats d = None \<Longrightarrow>
   snd (handle env State_callback d) = d\<lparr>requests_made := Suc (requests_made d)\<rparr>"
  using make_request_snd [of "json_loads env" "crawler env" d]
  by (cases "make_request (json_loads env) (crawler env) d")
     (simp add: handle_def state_def verify_cached_stats_def split: sum.splits)

text \<open>
  C5, as the code has it. All consumers served while the store holds the text \<open>text\<close>
  read the same snapshot, the decoding of \<open>text\<close>, whatever the crawler would answer,
  and none of them fetches or changes the state.
\<close>

theorem consumers_of_warm_store_agree:
  assumes "cached_crawler_stats d = Some text"
  shows "serve env (replicate n State_callback) d =
           (replicate n (case json_loads env text of
                           None \<Rightarrow> Inl JSONDecodeError
                         | Some data \<Rightarrow> Inr (Children (previous_states (prev_states data)))), d)
       \<and> fst (verify_cached_stats loads crawl (Some text) d)
           = fst (verify_cached_stats loads crawl' (Some text) d')
       \<and> snd (verify_cached_stats loads crawl (Some text) d) = d"
proof -
  have "serve env (replicate n State_callback) d =
           (replicate n (case json_loads env text of
                           None \<Rightarrow> Inl JSONDecodeError
                         | Some data \<Rightarrow> Inr (Children (previous_states (prev_states data)))), d)"
    by (induction n) (simp_all add: handle_state_warm [OF assms])
  then show ?thesis
    by (simp add: verify_cached_stats_def split: option.splits)
qed

theorem consumers_of_warm_store_agree_witness:
  "cached_crawler_stats warm = Some ''A''
   \<and> serve env_up (replicate 3 State_callback) warm =
       (replicate 3 (Inr (Children (previous_states [state_1]))), warm)"
proof -
  have h: "cached_crawler_stats warm = Some ''A''" by (simp add: warm_def)
  have e: "(case json_loads env_up ''A'' of
               None \<Rightarrow> Inl JSONDecodeError
             | Some data \<Rightarrow> Inr (Children (previous_states (prev_states data))))
           = Inr (Children (previous_states [state_1]))"
    by (simp add: env_up_def stats_A_def)
  show ?thesis
    using h consumers_of_warm_store_agree
      [OF h, where env = env_up and n = 3 and loads = "json_loads env_up"
         and crawl = "crawler env_up" and crawl' = "crawler env_up" and d' = warm]
    by (simp only: e)
qed

text \<open>
  C5 as stated fails on a cold start: no snapshot is current, and two consumers of the
  same cycle each fetch and render different payloads.
\<close>

theorem cold_consumers_read_different_snapshots:
  "cached_crawler_stats cold = None
   \<and> fst (serve env_up [State_callback, State_callback] cold) =
       [Inr (Children (previous_states [state_1])), Inr (Children (previous_states []))]
   \<and> previous_states [state_1] \<noteq> previous_states []"
  by (simp add: handle_def state_def verify_cached_stats_def make_request_def env_up_def cold_def
        stats_A_def stats_B_def Let_def previous_states_def states_table_def states_row_def)

lemma serve_snd_Cons:
  "snd (serve env (r # rs) d) = snd (serve env rs (snd (handle env r d)))"
  by (simp split: prod.splits)

text \<open>
  C6, as the code has it. Every first-time request that meets the absent store sends its
  own request to the crawler: \<open>n\<close> such requests make \<open>n\<close> fetches, and the store
  is still absent after them.
\<close>

theorem cold_requests_each_fetch:
  assumes "cached_crawler_stats d = None"
  shows "requests_made (snd (serve env (replicate n State_callback) d)) = requests_made d + n
       \<and> cached_crawler_stats (snd (serve env (replicate n State_callback) d)) = None"
  using assms
proof (induction n arbitrary: d)
  case 0
  then show ?case by simp
next
  case (Suc n)
  let ?d' = "d\<lparr>requests_made := Suc (requests_made d)\<rparr>"
  have step: "snd (handle env State_callback d) = ?d'"
    using Suc.prems by (rule handle_state_cold)
  have "cached_crawler_stats ?d' = None" using Suc.prems by simp
  from Suc.IH [OF this]
  have ih: "requests_made (snd (serve env (replicate n State_callback) ?d')) = requests_made d + Suc n
       \<and> cached_crawler_stats (snd (serve env (replicate n State_callback) ?d')) = None"
    by simp
  have "snd (serve env (replicate (Suc n) State_callback) d)
          = snd (serve env (replicate n State_callback) ?d')"
    by (simp add: serve_snd_Cons step del: serve.simps)
  then show ?case
    using ih by simp
qed

theorem cold_requests_each_fetch_witness:
  "cached_crawler_stats cold = None
   \<and> requests_made (snd (serve env_up (replicate 3 State_callback) cold)) = 3"
proof -
  have h: "cached_crawler_stats cold = None" by (simp add: cold_def)
  show ?thesis
    using h cold_requests_each_fetch [OF h, of env_up 3] by (simp add: cold_def)
qed

text \<open>
  C6 as stated fails: two first-time requests make two fetches.
\<close>

theorem two_cold_requests_two_fetches:
  "requests_made cold = 0
   \<and> requests_made (snd (serve env_up [State_callback, State_callback] cold)) = 2"
  by (simp add: handle_def state_def verify_cached_stats_def make_request_def env_up_def cold_def
        stats_A_def stats_B_def Let_def)

text \<open>
  C8. Serving \<^verbatim>\<open>/supply_information\<close> or \<^verbatim>\<open>/staker_information/<address>\<close> leaves the
  state, the cached snapshot included, as it was, and the answer does not depend on the
  state, the crawler or the JSON codec: only on the blockchain collaborators.
\<close>

theorem endpoints_bypass_store:
  "snd (handle env Supply_information d) = d
   \<and> snd (handle env (Staker_information staker_addr) d) = d
   \<and> fst (handle env Supply_information d)
       = fst (handle (env\<lparr>json_loads := loads, json_dumps := dumps, crawler := crawl\<rparr>)
                Supply_information d')
   \<and> fst (handle env (Staker_information staker_addr) d)
       = fst (handle (env\<lparr>json_loads := loads, json_dumps := dumps, crawler := crawl\<rparr>)
                (Staker_information staker_addr) d')"
  by (simp add: handle_def split: sum.splits)

section \<open>Properties of the supply endpoint\<close>

lemma investor_fraction:
  "double_add (double_of_decimal 319 3) (double_of_decimal 8 2) = double_of_decimal 399 3"
  by (simp add: double_add_def double_of_decimal_def round_to_double_def Let_def compute_bitlen)

lemma float_initial_supply:
  "float_of_int (400000 * 10 ^ 18) = Inr (Double 5960464477539062 26)"
  by (simp add: float_of_int_def round_to_double_def Let_def compute_bitlen)

lemma est_double:
  "double_sub (double_sub (double_sub (Double 5960464477539062 26)
       (double_mul (double_of_decimal 399 3) (Double 5960464477539062 26)))
       (double_mul (double_of_decimal 106 3) (Double 5960464477539062 26)))
       (double_mul (double_of_decimal 2 1) (Double 5960464477539062 26))
   = Double 7033348083496092 24"
  by (simp add: double_sub_def double_mul_def double_of_decimal_def round_to_double_def Let_def compute_bitlen)

text \<open>
  C4. For the supply query with \<^verbatim>\<open>total_supply\<close> 1,000,000 tokens and \<^verbatim>\<open>initial_supply\<close>
  400,000 tokens (in NuNits, \<open>10 ^ 18\<close> to the token), the answer holds under
  \<^verbatim>\<open>staking_rewards_supply\<close> the rendering of 600,000 tokens, total minus initial, and
  under \<^verbatim>\<open>est_circulating_supply\<close> the rendering of the float
  \<^verbatim>\<open>initial - 0.399 * initial - 0.106 * initial - 0.2 * initial\<close>, the investor fraction
  \<^verbatim>\<open>0.319 + 0.08\<close> being the double \<^verbatim>\<open>0.399\<close>. That float is the number
  117999999999999970639872 of NuNits, less than half a hundredth of a token away from
  118,000 tokens.
\<close>

theorem supply_information_example:
  "(case supply_information of_nunits str_rounded
           \<lparr>total_supply = 1000000 * 10 ^ 18, initial_supply = 400000 * 10 ^ 18\<rparr> of
      Inl e \<Rightarrow> False
    | Inr info \<Rightarrow>
        map_of info ''staking_rewards_supply''
          = Some (JStr (str_rounded (of_nunits (PyInt (600000 * 10 ^ 18)))))
      \<and> map_of info ''est_circulating_supply''
          = Some (JStr (str_rounded (of_nunits (PyFloat
              (double_sub (double_sub (double_sub (Double 5960464477539062 26)
                 (double_mul (double_of_decimal 399 3) (Double 5960464477539062 26)))
                 (double_mul (double_of_decimal 106 3) (Double 5960464477539062 26)))
                 (double_mul (double_of_decimal 2 1) (Double 5960464477539062 26))))))))
   \<and> float_of_int (400000 * 10 ^ 18) = Inr (Double 5960464477539062 26)
   \<and> double_value
        (double_sub (double_sub (double_sub (Double 5960464477539062 26)
           (double_mul (double_of_decimal 399 3) (Double 5960464477539062 26)))
           (double_mul (double_of_decimal 106 3) (Double 5960464477539062 26)))
           (double_mul (double_of_decimal 2 1) (Double 5960464477539062 26)))
        = 117999999999999970639872
   \<and> \<bar>118000 * 10 ^ 18 - (117999999999999970639872 :: rat)\<bar> < 10 ^ 16 / 2"
proof -
  have info: "supply_information of_nunits str_rounded
           \<lparr>total_supply = 1000000 * 10 ^ 18, initial_supply = 400000 * 10 ^ 18\<rparr>
     = Inr [(''total_supply'', JStr (str_rounded (of_nunits (PyInt (1000000 * 10 ^ 18))))),
            (''initial_supply'', JStr (str_rounded (of_nunits (PyInt (400000 * 10 ^ 18))))),
            (''staking_rewards_supply'', JStr (str_rounded (of_nunits (PyInt (600000 * 10 ^ 18))))),
            (''internal_allocations'',
               JObj [(''investors'', JStr (str_rounded (of_nunits (PyFloat
                        (double_mul (double_of_decimal 399 3) (Double 5960464477539062 26)))))),
                     (''team'', JStr (str_rounded (of_nunits (PyFloat
                        (double_mul (double_of_decimal 106 3) (Double 5960464477539062 26)))))),
                     (''company'', JStr (str_rounded (of_nunits (PyFloat
                        (double_mul (double_of_decimal 2 1) (Double 5960464477539062 26))))))]),
            (''est_circulating_supply'', JStr (str_rounded (of_nunits (PyFloat
              (double_sub (double_sub (double_sub (Double 5960464477539062 26)
                 (double_mul (double_of_decimal 399 3) (Double 5960464477539062 26)))
                 (double_mul (double_of_decimal 106 3) (Double 5960464477539062 26)))
                 (double_mul (double_of_decimal 2 1) (Double 5960464477539062 26)))))))]"
    using float_initial_supply
    by (simp add: supply_information_def investor_fraction Let_def)
  have a: "(case supply_information of_nunits str_rounded
           \<lparr>total_supply = 1000000 * 10 ^ 18, initial_supply = 400000 * 10 ^ 18\<rparr> of
      Inl e \<Rightarrow> False
    | Inr info \<Rightarrow>
        map_of info ''staking_rewards_supply''
          = Some (JStr (str_rounded (of_nunits (PyInt (600000 * 10 ^ 18)))))
      \<and> map_of info ''est_circulating_supply''
          = Some (JStr (str_rounded (of_nunits (PyFloat
              (double_sub (double_sub (double_sub (Double 5960464477539062 26)
                 (double_mul (double_of_decimal 399 3) (Double 5960464477539062 26)))
                 (double_mul (double_of_decimal 106 3) (Double 5960464477539062 26)))
                 (double_mul (double_of_decimal 2 1) (Double 5960464477539062 26))))))))"
    unfolding info by simp
  have v: "double_value (Double 7033348083496092 24) = 117999999999999970639872"
    by (simp add: double_value_def)
  have c: "double_value
        (double_sub (double_sub (double_sub (Double 5960464477539062 26)
           (double_mul (double_of_decimal 399 3) (Double 5960464477539062 26)))
           (double_mul (double_of_decimal 106 3) (Double 5960464477539062 26)))
           (double_mul (double_of_decimal 2 1) (Double 5960464477539062 26)))
        = 117999999999999970639872"
    unfolding est_double by (rule v)
  have d: "\<bar>118000 * 10 ^ 18 - (117999999999999970639872 :: rat)\<bar> < 10 ^ 16 / 2"
    by simp
  show ?thesis
    by (rule conjI [OF a conjI [OF float_initial_supply conjI [OF c d]]])
qed

text \<open>The same query with the two supplies given as 1,000,000 and 400,000 NuNits: every float is exact.\<close>

lemma float_400000: "float_of_int 400000 = Inr (Double 6871947673600000 (- 34))"
  by (simp add: float_of_int_def round_to_double_def Let_def compute_bitlen)

lemma raw_investor:
  "double_mul (double_of_decimal 399 3) (Double 6871947673600000 (- 34)) = Double 5483814243532800 (- 35)"
  by (simp add: double_mul_def double_of_decimal_def round_to_double_def Let_def compute_bitlen)

lemma raw_team:
  "double_mul (double_of_decimal 106 3) (Double 6871947673600000 (- 34)) = Double 5827411627212800 (- 37)"
  by (simp add: double_mul_def double_of_decimal_def round_to_double_def Let_def compute_bitlen)

lemma raw_nuco:
  "double_mul (double_of_decimal 2 1) (Double 6871947673600000 (- 34)) = Double 5497558138880000 (- 36)"
  by (simp add: double_mul_def double_of_decimal_def round_to_double_def Let_def compute_bitlen)

lemma raw_est:
  "double_sub (double_sub (double_sub (Double 6871947673600000 (- 34)) (Double 5483814243532800 (- 35)))
      (Double 5827411627212800 (- 37))) (Double 5497558138880000 (- 36))
   = Double 8108898254848000 (- 36)"
  by (simp add: double_sub_def round_to_double_def Let_def compute_bitlen)

lemma raw_value: "double_value (Double 8108898254848000 (- 36)) = 118000"
  by (simp add: double_value_def)

lemma supply_information_raw_units:
  "supply_information of_nunits str_rounded \<lparr>total_supply = 1000000, initial_supply = 400000\<rparr>
     = Inr [(''total_supply'', JStr (str_rounded (of_nunits (PyInt 1000000)))),
            (''initial_supply'', JStr (str_rounded (of_nunits (PyInt 400000)))),
            (''staking_rewards_supply'', JStr (str_rounded (of_nunits (PyInt 600000)))),
            (''internal_allocations'',
               JObj [(''investors'', JStr (str_rounded (of_nunits (PyFloat (Double 5483814243532800 (- 35)))))),
                     (''team'', JStr (str_rounded (of_nunits (PyFloat (Double 5827411627212800 (- 37)))))),
                     (''company'', JStr (str_rounded (of_nunits (PyFloat (Double 5497558138880000 (- 36))))))]),
            (''est_circulating_supply'', JStr (str_rounded (of_nunits (PyFloat (Double 8108898254848000 (- 36))))))]
   \<and> double_value (Double 8108898254848000 (- 36)) = 118000"
  using float_400000
  by (simp add: supply_information_def investor_fraction raw_investor raw_team
        raw_nuco [unfolded One_nat_def] raw_est raw_value Let_def)

end
